theory Spec2Isabelle
  imports Main "HOL-Library.Word"
begin

section \<open>The annotation overlay of PDFViewer.tsx\<close>

text \<open>
  The development embeds the state of the \<^verbatim>\<open>PDFViewer\<close> component
  (\<^verbatim>\<open>src/frontend/src/components/PDFViewer.tsx\<close>) and its event handlers as pure
  state transformers. Every \<^verbatim>\<open>useState\<close> cell of the component is a field of the
  record \<open>viewer\<close>; the browser's text selection, which \<^verbatim>\<open>createHighlight\<close> mutates
  through \<^verbatim>\<open>removeAllRanges\<close>, is a field as well.

  Coordinates are JavaScript numbers. The embedding is polymorphic in the number type
  \<open>'n\<close> and uses only the operations the source applies to it (subtraction, addition,
  comparison, the literal 40), so that no property of exact arithmetic is built in.
\<close>

subsection \<open>Strings\<close>

text \<open>
  A JavaScript string is a sequence of UTF-16 code units. \<^verbatim>\<open>String.prototype.trim\<close>
  removes the code units that ECMAScript classifies as white space or line terminator
  from both ends.
\<close>

type_synonym jsstring = "16 word list"

definition isWhiteSpace :: "16 word \<Rightarrow> bool" where
  "isWhiteSpace c \<longleftrightarrow>
     c \<in> set [0x0009, 0x000A, 0x000B, 0x000C, 0x000D, 0x0020, 0x00A0, 0x1680,
              0x2000, 0x2001, 0x2002, 0x2003, 0x2004, 0x2005, 0x2006, 0x2007,
              0x2008, 0x2009, 0x200A, 0x2028, 0x2029, 0x202F, 0x205F, 0x3000, 0xFEFF]"

definition trim :: "jsstring \<Rightarrow> jsstring" where
  "trim t = rev (dropWhile isWhiteSpace (rev (dropWhile isWhiteSpace t)))"

text \<open>Decimal rendering of a non-negative integer, as \<^verbatim>\<open>Date.now().toString()\<close> gives it.\<close>

definition digit :: "nat \<Rightarrow> char" where
  "digit d = char_of (48 + d)"

fun decimal :: "nat \<Rightarrow> string" where
  "decimal n = (if n < 10 then [digit n] else decimal (n div 10) @ [digit (n mod 10)])"

declare decimal.simps [simp del]

subsection \<open>Data model\<close>

text \<open>
  \<^verbatim>\<open>DOMRect\<close> is constructed from \<open>x\<close>, \<open>y\<close>, \<open>width\<close>, \<open>height\<close>; its read-only
  attributes \<open>left\<close> and \<open>top\<close> are the minimum of the origin coordinate and the origin
  plus the extent (DOM Geometry interfaces).
\<close>

record 'n DOMRect =
  rect_x :: 'n
  rect_y :: 'n
  rect_width :: 'n
  rect_height :: 'n

definition rect_left :: "('n::{ord,plus}) DOMRect \<Rightarrow> 'n" where
  "rect_left r = min (rect_x r) (rect_x r + rect_width r)"

definition rect_top :: "('n::{ord,plus}) DOMRect \<Rightarrow> 'n" where
  "rect_top r = min (rect_y r) (rect_y r + rect_height r)"

record 'n Position =
  pos_x :: 'n
  pos_y :: 'n

record 'n Highlight =
  h_id :: string
  h_pageNumber :: nat
  h_rects :: "'n DOMRect list"
  h_color :: string
  h_text :: jsstring

record HighlightColor =
  color_name :: string
  color_value :: string
  color_border :: string

definition HIGHLIGHT_COLORS :: "HighlightColor list" where
  "HIGHLIGHT_COLORS =
     [\<lparr>color_name = ''Yellow'', color_value = ''rgba(255, 255, 0, 0.3)'', color_border = ''#ffd700''\<rparr>,
      \<lparr>color_name = ''Green'', color_value = ''rgba(144, 238, 144, 0.3)'', color_border = ''#90ee90''\<rparr>,
      \<lparr>color_name = ''Blue'', color_value = ''rgba(135, 206, 250, 0.3)'', color_border = ''#87ceeb''\<rparr>,
      \<lparr>color_name = ''Pink'', color_value = ''rgba(255, 192, 203, 0.3)'', color_border = ''#ffb6c1''\<rparr>,
      \<lparr>color_name = ''Orange'', color_value = ''rgba(255, 165, 0, 0.3)'', color_border = ''#ffa500''\<rparr>]"

record 'n SelectionData =
  sd_pageNumber :: nat
  sd_rects :: "'n DOMRect list"
  sd_text :: jsstring
  sd_position :: "'n Position"

subsection \<open>The browser objects the handlers touch\<close>

text \<open>
  A \<^verbatim>\<open>Selection\<close> holds its ranges (each given by the client rectangles that
  \<^verbatim>\<open>getClientRects\<close> reports for it), its collapsed flag and its text.
  \<^verbatim>\<open>getRangeAt\<close> raises \<^verbatim>\<open>IndexSizeError\<close> for an index that is not below
  \<^verbatim>\<open>rangeCount\<close>; \<^verbatim>\<open>removeAllRanges\<close> leaves an empty selection.
\<close>

datatype dom_error = IndexSizeError

record 'n Selection =
  isCollapsed :: bool
  ranges :: "'n DOMRect list list"
  selText :: jsstring

definition rangeCount :: "'n Selection \<Rightarrow> nat" where
  "rangeCount sel = length (ranges sel)"

definition getRangeAt :: "'n Selection \<Rightarrow> nat \<Rightarrow> dom_error + 'n DOMRect list" where
  "getRangeAt sel i = (if i < length (ranges sel) then Inr (ranges sel ! i) else Inl IndexSizeError)"

definition removeAllRanges :: "'n Selection \<Rightarrow> 'n Selection" where
  "removeAllRanges sel = sel\<lparr>isCollapsed := True, ranges := [], selText := []\<rparr>"

text \<open>A mounted page container, known by the bounding box it reports.\<close>

record 'n HTMLDivElement =
  getBoundingClientRect :: "'n DOMRect"

text \<open>
  \<^verbatim>\<open>pageRefs.current\<close>: a page number has no entry (\<^verbatim>\<open>undefined\<close>), the entry
  \<^verbatim>\<open>null\<close>, or a mounted element.
\<close>

type_synonym 'n pageRefs = "nat \<rightharpoonup> 'n HTMLDivElement option"

subsection \<open>Component state\<close>

record 'n viewer =
  numPages :: nat
  error :: "string option"
  highlights :: "'n Highlight list"
  selectedColor :: HighlightColor
  selectionData :: "'n SelectionData option"
  highlightToDelete :: "string option"
  windowSelection :: "'n Selection option"

text \<open>The \<^verbatim>\<open>useState\<close> initial values; the browser selection is whatever it is.\<close>

definition initialViewer :: "'n Selection option \<Rightarrow> 'n viewer" where
  "initialViewer w =
     \<lparr>numPages = 0, error = None, highlights = [], selectedColor = HIGHLIGHT_COLORS ! 0,
      selectionData = None, highlightToDelete = None, windowSelection = w\<rparr>"

subsection \<open>Handlers\<close>

definition onDocumentLoadSuccess :: "nat \<Rightarrow> 'n viewer \<Rightarrow> 'n viewer" where
  "onDocumentLoadSuccess n s = s\<lparr>numPages := n, error := None\<rparr>"

definition onDocumentLoadError :: "'n viewer \<Rightarrow> 'n viewer" where
  "onDocumentLoadError s = s\<lparr>error := Some ''Failed to load PDF. Please try uploading again.''\<rparr>"

text \<open>The two values \<^verbatim>\<open>handleTextSelection\<close> computes from the geometry.\<close>

definition relativeRects ::
  "('n::{ord,plus,minus}) DOMRect \<Rightarrow> 'n DOMRect list \<Rightarrow> 'n DOMRect list" where
  "relativeRects pageRect rects =
     map (\<lambda>rect. \<lparr>rect_x = rect_left rect - rect_left pageRect,
                  rect_y = rect_top rect - rect_top pageRect,
                  rect_width = rect_width rect,
                  rect_height = rect_height rect\<rparr>) rects"

definition buttonPosition ::
  "('n::{ord,plus,minus,numeral}) DOMRect \<Rightarrow> 'n DOMRect \<Rightarrow> 'n Position" where
  "buttonPosition pageRect firstRect =
     \<lparr>pos_x = rect_left firstRect - rect_left pageRect,
      pos_y = rect_top firstRect - rect_top pageRect - 40\<rparr>"

text \<open>
  The body of the timer callback of \<^verbatim>\<open>handleTextSelection(pageNumber)\<close>, run when the
  10 ms timer fires. \<open>Inl\<close> is an exception escaping the callback.
\<close>

definition handleTextSelection ::
  "('n::{ord,plus,minus,numeral}) pageRefs \<Rightarrow> nat \<Rightarrow> 'n viewer \<Rightarrow> dom_error + 'n viewer" where
  "handleTextSelection pageRefs pageNumber s =
     (case windowSelection s of
        None \<Rightarrow> Inr s
      | Some selection \<Rightarrow>
          if isCollapsed selection \<or> rangeCount selection = 0 then Inr s
          else
            (case getRangeAt selection 0 of
               Inl e \<Rightarrow> Inl e
             | Inr rects \<Rightarrow>
                 let selectedText = trim (selText selection) in
                 if selectedText = [] then Inr s
                 else if length rects = 0 then Inr s
                 else
                   (case pageRefs pageNumber of
                      None \<Rightarrow> Inr s
                    | Some None \<Rightarrow> Inr s
                    | Some (Some pageContainer) \<Rightarrow>
                        let pageRect = getBoundingClientRect pageContainer;
                            firstRect = rects ! 0
                        in Inr (s\<lparr>selectionData :=
                                   Some \<lparr>sd_pageNumber = pageNumber,
                                         sd_rects = relativeRects pageRect rects,
                                         sd_text = selectedText,
                                         sd_position = buttonPosition pageRect firstRect\<rparr>\<rparr>))))"

text \<open>
  \<^verbatim>\<open>createHighlight\<close>. The two arguments are what the environment returns at the call:
  \<open>now\<close> is \<^verbatim>\<open>Date.now()\<close> and \<open>rnd\<close> is the text that string concatenation gives
  the value of \<^verbatim>\<open>Math.random()\<close>.
\<close>

definition newId :: "nat \<Rightarrow> string \<Rightarrow> string" where
  "newId now rnd = decimal now @ rnd"

text \<open>
  \<^verbatim>\<open>Math.random()\<close> returns a number in \<open>[0, 1)\<close>. The text of such a number is
  \<^verbatim>\<open>0\<close>, or \<^verbatim>\<open>0.\<close> followed by digits, or, below \<open>10\<^sup>-\<^sup>6\<close>, one digit followed
  by an optional fraction and an exponent (\<^verbatim>\<open>3e-7\<close>, \<^verbatim>\<open>1.25e-7\<close>): in every case one
  digit followed by nothing, by a point or by the letter \<^verbatim>\<open>e\<close>.
\<close>

definition isDigit :: "char \<Rightarrow> bool" where
  "isDigit c \<longleftrightarrow> (48::nat) \<le> of_char c \<and> of_char c \<le> (57::nat)"

definition randomText :: "string \<Rightarrow> bool" where
  "randomText rnd =
     (case rnd of
        [] \<Rightarrow> False
      | d # rest \<Rightarrow>
          isDigit d \<and> (case rest of [] \<Rightarrow> True | c # _ \<Rightarrow> c = CHR ''.'' \<or> c = CHR ''e''))"

definition createHighlight :: "nat \<Rightarrow> string \<Rightarrow> 'n viewer \<Rightarrow> 'n viewer" where
  "createHighlight now rnd s =
     (case selectionData s of
        None \<Rightarrow> s
      | Some sd \<Rightarrow>
          let newHighlight =
                \<lparr>h_id = newId now rnd,
                 h_pageNumber = sd_pageNumber sd,
                 h_rects = sd_rects sd,
                 h_color = color_value (selectedColor s),
                 h_text = sd_text sd\<rparr>
          in s\<lparr>highlights := highlights s @ [newHighlight],
               selectionData := None,
               windowSelection := map_option removeAllRanges (windowSelection s)\<rparr>)"

definition showDeleteUI :: "string \<Rightarrow> 'n viewer \<Rightarrow> 'n viewer" where
  "showDeleteUI highlightId s = s\<lparr>highlightToDelete := Some highlightId\<rparr>"

definition confirmRemoveHighlight :: "string \<Rightarrow> 'n viewer \<Rightarrow> 'n viewer" where
  "confirmRemoveHighlight highlightId s =
     s\<lparr>highlights := filter (\<lambda>h. h_id h \<noteq> highlightId) (highlights s),
       highlightToDelete := None\<rparr>"

definition clearAllHighlights :: "'n viewer \<Rightarrow> 'n viewer" where
  "clearAllHighlights s = s\<lparr>highlights := [], highlightToDelete := None\<rparr>"

text \<open>The \<^verbatim>\<open>onClick\<close> of the document background.\<close>

definition documentClick :: "'n viewer \<Rightarrow> 'n viewer" where
  "documentClick s = s\<lparr>selectionData := None, highlightToDelete := None\<rparr>"

text \<open>The highlights \<^verbatim>\<open>renderHighlights(pageNumber)\<close> paints: the store's query by page.\<close>

definition pageHighlights :: "'n viewer \<Rightarrow> nat \<Rightarrow> 'n Highlight list" where
  "pageHighlights s pageNumber = filter (\<lambda>h. h_pageNumber h = pageNumber) (highlights s)"

subsection \<open>Sessions\<close>

text \<open>
  What can happen to a mounted viewer. \<open>Select\<close> is the user changing the browser's
  text selection. \<open>MouseUp index pageRefs\<close> is a pointer release on the page container
  that the render loop creates for \<open>index\<close>, followed by the timer callback, which
  finds \<open>pageRefs\<close>; the page containers exist for \<open>index < numPages\<close> while no load
  error is shown, and the handler is called with \<open>index + 1\<close>. The other events call
  one handler each; \<open>HighlightButton\<close> carries the clock and the random text that
  \<open>createHighlight\<close> draws. An exception escaping the timer callback leaves the state
  as it was.
\<close>

datatype 'n event =
    LoadSuccess nat
  | LoadError
  | Select "'n Selection option"
  | MouseUp nat "'n pageRefs"
  | HighlightButton nat string
  | HighlightClick string
  | DeleteButton string
  | ClearAll
  | BackgroundClick
  | ColorButton nat

fun step :: "('n::{ord,plus,minus,numeral}) event \<Rightarrow> 'n viewer \<Rightarrow> 'n viewer" where
  "step (LoadSuccess n) s = onDocumentLoadSuccess n s"
| "step LoadError s = onDocumentLoadError s"
| "step (Select w) s = s\<lparr>windowSelection := w\<rparr>"
| "step (MouseUp index pageRefs) s =
     (if error s = None \<and> index < numPages s then
        (case handleTextSelection pageRefs (index + 1) s of Inl e \<Rightarrow> s | Inr s' \<Rightarrow> s')
      else s)"
| "step (HighlightButton now rnd) s = createHighlight now rnd s"
| "step (HighlightClick highlightId) s = showDeleteUI highlightId s"
| "step (DeleteButton highlightId) s = confirmRemoveHighlight highlightId s"
| "step ClearAll s = clearAllHighlights s"
| "step BackgroundClick s = documentClick s"
| "step (ColorButton i) s =
     (if i < length HIGHLIGHT_COLORS then s\<lparr>selectedColor := HIGHLIGHT_COLORS ! i\<rparr> else s)"

fun run :: "('n::{ord,plus,minus,numeral}) event list \<Rightarrow> 'n viewer \<Rightarrow> 'n viewer" where
  "run [] s = s"
| "run (e # es) s = run es (step e s)"

text \<open>
  Two observations of a session, used to state its invariants: the ids that
  \<open>createHighlight\<close> has given to the highlights it created, in order, and the largest
  page count the viewer has had.
\<close>

fun issued :: "'n event \<Rightarrow> 'n viewer \<Rightarrow> string list" where
  "issued (HighlightButton now rnd) s = (if selectionData s = None then [] else [newId now rnd])"
| "issued e s = []"

fun issuedIds :: "('n::{ord,plus,minus,numeral}) event list \<Rightarrow> 'n viewer \<Rightarrow> string list" where
  "issuedIds [] s = []"
| "issuedIds (e # es) s = issued e s @ issuedIds es (step e s)"

text \<open>
  The pairs \<open>(Date.now(), Math.random())\<close> that \<open>createHighlight\<close> reads in a session:
  one pair for every call that finds a pending selection.
\<close>

fun drawn :: "'n event \<Rightarrow> 'n viewer \<Rightarrow> (nat \<times> string) list" where
  "drawn (HighlightButton now rnd) s = (if selectionData s = None then [] else [(now, rnd)])"
| "drawn e s = []"

fun draws ::
  "('n::{ord,plus,minus,numeral}) event list \<Rightarrow> 'n viewer \<Rightarrow> (nat \<times> string) list" where
  "draws [] s = []"
| "draws (e # es) s = drawn e s @ draws es (step e s)"

fun peakPages :: "('n::{ord,plus,minus,numeral}) event list \<Rightarrow> 'n viewer \<Rightarrow> nat" where
  "peakPages [] s = numPages s"
| "peakPages (e # es) s = max (numPages s) (peakPages es (step e s))"

definition pagesWithin :: "nat \<Rightarrow> 'n viewer \<Rightarrow> bool" where
  "pagesWithin m s \<longleftrightarrow>
     list_all (\<lambda>h. 1 \<le> h_pageNumber h \<and> h_pageNumber h \<le> m) (highlights s) \<and>
     (case selectionData s of None \<Rightarrow> True | Some sd \<Rightarrow> 1 \<le> sd_pageNumber sd \<and> sd_pageNumber sd \<le> m)"

subsection \<open>A concrete session\<close>

text \<open>
  A selection over two lines of page 2, with client rectangles
  \<open>{x:100, y:50, w:80, h:20}\<close> and \<open>{x:20, y:72, w:200, h:20}\<close>, on a page whose
  bounding box starts at \<open>(500, 1200)\<close>; the selected text is \<open>Hi\<close>.
\<close>

definition rectA :: "int DOMRect" where
  "rectA = \<lparr>rect_x = 100, rect_y = 50, rect_width = 80, rect_height = 20\<rparr>"

definition rectB :: "int DOMRect" where
  "rectB = \<lparr>rect_x = 20, rect_y = 72, rect_width = 200, rect_height = 20\<rparr>"

definition pageBox :: "int DOMRect" where
  "pageBox = \<lparr>rect_x = 500, rect_y = 1200, rect_width = 700, rect_height = 906\<rparr>"

definition twoLines :: "int Selection" where
  "twoLines = \<lparr>isCollapsed = False, ranges = [[rectA, rectB]], selText = [0x48, 0x69]\<rparr>"

definition mounted :: "nat \<Rightarrow> int pageRefs" where
  "mounted p = (\<lambda>k. if k = p then Some (Some \<lparr>getBoundingClientRect = pageBox\<rparr>) else None)"

definition pendingOnPage :: "nat \<Rightarrow> int SelectionData" where
  "pendingOnPage p =
     \<lparr>sd_pageNumber = p,
      sd_rects = [\<lparr>rect_x = - 400, rect_y = - 1150, rect_width = 80, rect_height = 20\<rparr>,
                  \<lparr>rect_x = - 480, rect_y = - 1128, rect_width = 200, rect_height = 20\<rparr>],
      sd_text = [0x48, 0x69],
      sd_position = \<lparr>pos_x = - 400, pos_y = - 1190\<rparr>\<rparr>"

definition yellowOn :: "string \<Rightarrow> nat \<Rightarrow> int Highlight" where
  "yellowOn i p =
     \<lparr>h_id = i, h_pageNumber = p, h_rects = sd_rects (pendingOnPage p),
      h_color = ''rgba(255, 255, 0, 0.3)'', h_text = [0x48, 0x69]\<rparr>"

text \<open>A viewer of a five-page document with one highlight, which is armed, and a pending selection.\<close>

definition busyViewer :: "int viewer" where
  "busyViewer =
     \<lparr>numPages = 5, error = None, highlights = [yellowOn ''17000000000000.25'' 2],
      selectedColor = HIGHLIGHT_COLORS ! 0, selectionData = Some (pendingOnPage 2),
      highlightToDelete = Some ''17000000000000.25'', windowSelection = Some twoLines\<rparr>"

text \<open>The same viewer with nothing pending.\<close>

definition idleViewer :: "int viewer" where
  "idleViewer = busyViewer\<lparr>selectionData := None\<rparr>"

text \<open>Select on page 2 and commit, twice, the clock and the random number being the same both times.\<close>

definition sameDraws :: "int event list" where
  "sameDraws =
     [LoadSuccess 3,
      Select (Some twoLines), MouseUp 1 (mounted 2), HighlightButton 1700000000000 ''0.5'',
      Select (Some twoLines), MouseUp 1 (mounted 2), HighlightButton 1700000000000 ''0.5'']"

text \<open>The same with two different random numbers.\<close>

definition freshDraws :: "int event list" where
  "freshDraws =
     [LoadSuccess 3,
      Select (Some twoLines), MouseUp 1 (mounted 2), HighlightButton 1700000000000 ''0.5'',
      Select (Some twoLines), MouseUp 1 (mounted 2), HighlightButton 1700000000000 ''0.25'']"

text \<open>Highlight on the last page of a five-page document, then load a two-page document.\<close>

definition shrinkingLoad :: "int event list" where
  "shrinkingLoad =
     [LoadSuccess 5,
      Select (Some twoLines), MouseUp 4 (mounted 5), HighlightButton 1700000000000 ''0.5'',
      LoadSuccess 2]"

text \<open>Three commits that differ in the random number or in the clock.\<close>

definition threeDraws :: "int event list" where
  "threeDraws =
     [LoadSuccess 3,
      Select (Some twoLines), MouseUp 1 (mounted 2), HighlightButton 1700000000000 ''0.5'',
      Select (Some twoLines), MouseUp 1 (mounted 2), HighlightButton 1700000000000 ''3e-7'',
      Select (Some twoLines), MouseUp 1 (mounted 2), HighlightButton 1700000000001 ''0.5'']"

subsection \<open>Integer-valued double precision numbers\<close>

text \<open>
  A JavaScript number is an IEEE 754 binary64 value. The values with an integer value are
  closed under addition and subtraction, and they are the number type at which the
  geometry is examined for rounding: \<open>Num z\<close> is the number with the integer value
  \<open>z\<close>, which is a binary64 value when \<open>z\<close> has at most 53 significant bits and is
  below \<open>2\<^sup>1\<^sup>0\<^sup>2\<^sup>4\<close> in magnitude. Zero has no sign here.

  \<open>round53\<close> rounds an integer to 53 significant bits, to the nearest such value and to
  the one with the even significand in a tie; \<open>toBinary64\<close> is the result of an
  operation whose exact value is the given integer, with overflow to an infinity.
\<close>

fun bitLength :: "nat \<Rightarrow> nat" where
  "bitLength n = (if n = 0 then 0 else Suc (bitLength (n div 2)))"

declare bitLength.simps [simp del]

definition round53 :: "int \<Rightarrow> int" where
  "round53 z =
     (let a = nat \<bar>z\<bar>;
          e = bitLength a - 53;
          q = a div 2 ^ e;
          r = a mod 2 ^ e;
          m = (if 2 ^ e < 2 * r \<or> (2 * r = 2 ^ e \<and> odd q) then q + 1 else q)
      in sgn z * int (m * 2 ^ e))"

datatype binary64 = Num int | PosInf | NegInf | NaN

definition toBinary64 :: "int \<Rightarrow> binary64" where
  "toBinary64 z =
     (let r = round53 z
      in if 2 ^ 1024 \<le> r then PosInf else if r \<le> - (2 ^ 1024) then NegInf else Num r)"

fun neg64 :: "binary64 \<Rightarrow> binary64" where
  "neg64 (Num a) = Num (- a)"
| "neg64 PosInf = NegInf"
| "neg64 NegInf = PosInf"
| "neg64 NaN = NaN"

fun add64 :: "binary64 \<Rightarrow> binary64 \<Rightarrow> binary64" where
  "add64 NaN b = NaN"
| "add64 a NaN = NaN"
| "add64 (Num a) (Num b) = toBinary64 (a + b)"
| "add64 PosInf NegInf = NaN"
| "add64 NegInf PosInf = NaN"
| "add64 PosInf b = PosInf"
| "add64 a PosInf = PosInf"
| "add64 NegInf b = NegInf"
| "add64 a NegInf = NegInf"

fun le64 :: "binary64 \<Rightarrow> binary64 \<Rightarrow> bool" where
  "le64 NaN b = False"
| "le64 a NaN = False"
| "le64 NegInf b = True"
| "le64 a PosInf = True"
| "le64 (Num a) (Num b) = (a \<le> b)"
| "le64 a b = False"

fun lt64 :: "binary64 \<Rightarrow> binary64 \<Rightarrow> bool" where
  "lt64 NaN b = False"
| "lt64 a NaN = False"
| "lt64 (Num a) (Num b) = (a < b)"
| "lt64 NegInf NegInf = False"
| "lt64 PosInf b = False"
| "lt64 NegInf b = True"
| "lt64 a PosInf = True"
| "lt64 a NegInf = False"

instantiation binary64 :: "{ord,plus,minus}"
begin

definition plus_binary64 :: "binary64 \<Rightarrow> binary64 \<Rightarrow> binary64" where
  "plus_binary64 a b = add64 a b"

definition minus_binary64 :: "binary64 \<Rightarrow> binary64 \<Rightarrow> binary64" where
  "minus_binary64 a b = add64 a (neg64 b)"

definition less_eq_binary64 :: "binary64 \<Rightarrow> binary64 \<Rightarrow> bool" where
  "less_eq_binary64 a b = le64 a b"

definition less_binary64 :: "binary64 \<Rightarrow> binary64 \<Rightarrow> bool" where
  "less_binary64 a b = lt64 a b"

instance ..

end







section \<open>Facts shared by the proofs\<close>

lemmas handler_defs =
  onDocumentLoadSuccess_def onDocumentLoadError_def handleTextSelection_def createHighlight_def
  rangeCount_def getRangeAt_def trim_def isWhiteSpace_def removeAllRanges_def relativeRects_def
  buttonPosition_def rect_left_def rect_top_def confirmRemoveHighlight_def clearAllHighlights_def
  documentClick_def showDeleteUI_def newId_def Let_def

lemmas example_defs =
  twoLines_def mounted_def rectA_def rectB_def pageBox_def yellowOn_def pendingOnPage_def
  HIGHLIGHT_COLORS_def busyViewer_def idleViewer_def initialViewer_def

text \<open>
  The timer callback either leaves the state as it is or replaces the pending selection
  by one on the page it was called for; no exception escapes it.
\<close>

lemma handleTextSelection_result:
  "handleTextSelection refs p s = Inr s \<or>
   (\<exists>sd. handleTextSelection refs p s = Inr (s\<lparr>selectionData := Some sd\<rparr>) \<and> sd_pageNumber sd = p)"
  by (auto simp: handleTextSelection_def getRangeAt_def rangeCount_def Let_def
           split: option.splits sum.splits)

lemma step_MouseUp_result:
  "step (MouseUp i refs) s = s \<or>
   (\<exists>sd. step (MouseUp i refs) s = s\<lparr>selectionData := Some sd\<rparr> \<and>
         sd_pageNumber sd = i + 1 \<and> i < numPages s)"
  using handleTextSelection_result [of refs "i + 1" s] by auto

text \<open>The stores reached by the two sessions that commit the same selection twice.\<close>

lemma sameDraws_store:
  "highlights (run sameDraws (initialViewer None)) =
     [yellowOn (newId 1700000000000 ''0.5'') 2, yellowOn (newId 1700000000000 ''0.5'') 2]"
  by (simp add: sameDraws_def handler_defs example_defs)

lemma freshDraws_store:
  "highlights (run freshDraws (initialViewer None)) =
     [yellowOn (newId 1700000000000 ''0.5'') 2, yellowOn (newId 1700000000000 ''0.25'') 2]"
  by (simp add: freshDraws_def handler_defs example_defs)

text \<open>The state after the session that ends with the load of a shorter document.\<close>

lemma shrinkingLoad_final:
  "run shrinkingLoad (initialViewer None) =
     \<lparr>numPages = 2, error = None, highlights = [yellowOn (newId 1700000000000 ''0.5'') 5],
      selectedColor = HIGHLIGHT_COLORS ! 0, selectionData = None, highlightToDelete = None,
      windowSelection = Some \<lparr>isCollapsed = True, ranges = [], selText = []\<rparr>\<rparr>"
  by (simp add: shrinkingLoad_def handler_defs example_defs)

text \<open>
  Every step keeps a sub-sequence of the ids in the store and appends the id it issues,
  if it issues one.
\<close>

lemma step_store_ids:
  "\<exists>P. map h_id (highlights (step e s)) = filter P (map h_id (highlights s)) @ issued e s"
proof (cases e)
  case (MouseUp i refs)
  then show ?thesis using step_MouseUp_result [of i refs s]
    by (intro exI [of _ "\<lambda>_. True"]) auto
next
  case (HighlightButton now rnd)
  then show ?thesis
    by (intro exI [of _ "\<lambda>_. True"]) (simp add: createHighlight_def Let_def split: option.splits)
next
  case (DeleteButton i)
  then show ?thesis
    by (intro exI [of _ "\<lambda>j. j \<noteq> i"]) (simp add: confirmRemoveHighlight_def filter_map comp_def)
next
  case ClearAll
  then show ?thesis
    by (intro exI [of _ "\<lambda>_. False"]) (simp add: clearAllHighlights_def)
qed (auto simp: handler_defs intro!: exI [of _ "\<lambda>_. True"])

lemma store_ids_stay_distinct:
  "distinct (map h_id (highlights s) @ issuedIds es s) \<Longrightarrow>
   distinct (map h_id (highlights (run es s)))"
proof (induction es arbitrary: s)
  case Nil
  then show ?case by simp
next
  case (Cons e es)
  obtain P where P:
    "map h_id (highlights (step e s)) = filter P (map h_id (highlights s)) @ issued e s"
    using step_store_ids by blast
  have "distinct (map h_id (highlights s) @ issued e s @ issuedIds es (step e s))"
    using Cons.prems by simp
  then have "distinct ((filter P (map h_id (highlights s)) @ issued e s) @ issuedIds es (step e s))"
    by auto
  then show ?case using Cons.IH [of "step e s"] P by simp
qed

lemma issuedIds_append:
  "issuedIds (xs @ ys) s = issuedIds xs s @ issuedIds ys (run xs s)"
  by (induction xs arbitrary: s) simp_all

text \<open>Filtering out the key of one element of a list with distinct keys removes that element only.\<close>

lemma filter_out_one:
  "distinct (map f xs) \<Longrightarrow> x \<in> set xs \<Longrightarrow>
   length (filter (\<lambda>h. f h \<noteq> f x) xs) + 1 = length xs"
proof (induction xs)
  case Nil
  then show ?case by simp
next
  case (Cons a xs)
  show ?case
  proof (cases "f a = f x")
    case True
    have "f a \<notin> f ` set xs" using Cons.prems(1) by simp
    with True have "\<forall>h\<in>set xs. f h \<noteq> f x" by (metis image_eqI)
    then have "filter (\<lambda>h. f h \<noteq> f x) xs = xs" by (simp add: filter_id_conv)
    with True show ?thesis by simp
  next
    case False
    then have "x \<in> set xs" using Cons.prems(2) by auto
    with Cons False show ?thesis by simp
  qed
qed

text \<open>
  A bound on the page numbers survives every step as long as it is at least the current
  page count, and then survives a whole session if it follows the page count upwards.
\<close>

lemma pagesWithin_mono: "pagesWithin m s \<Longrightarrow> m \<le> m' \<Longrightarrow> pagesWithin m' s"
  by (auto simp: pagesWithin_def list_all_iff split: option.splits)

lemma step_pagesWithin:
  assumes "pagesWithin m s" and "numPages s \<le> m"
  shows "pagesWithin m (step e s)"
proof (cases e)
  case (MouseUp i refs)
  then show ?thesis using step_MouseUp_result [of i refs s] assms
    by (auto simp: pagesWithin_def)
next
  case (HighlightButton now rnd)
  then show ?thesis using assms
    by (auto simp: pagesWithin_def createHighlight_def Let_def list_all_iff split: option.splits)
next
  case (DeleteButton i)
  then show ?thesis using assms
    by (auto simp: pagesWithin_def confirmRemoveHighlight_def list_all_iff)
qed (insert assms, auto simp: pagesWithin_def handler_defs)

lemma run_pagesWithin:
  "pagesWithin m s \<Longrightarrow> pagesWithin (max m (peakPages es s)) (run es s)"
proof (induction es arbitrary: s m)
  case Nil
  then show ?case by (simp add: pagesWithin_mono)
next
  case (Cons e es)
  have "pagesWithin (max m (numPages s)) s"
    using Cons.prems by (rule pagesWithin_mono) simp
  then have "pagesWithin (max m (numPages s)) (step e s)"
    by (rule step_pagesWithin) simp
  then have "pagesWithin (max (max m (numPages s)) (peakPages es (step e s))) (run es (step e s))"
    by (rule Cons.IH)
  then show ?case by (simp add: max.assoc)
qed

text \<open>
  The decimal text of a number consists of digits and determines the number, and an id
  determines the clock reading and the random text it was built from.
\<close>

lemma digit_isDigit: "d < 10 \<Longrightarrow> isDigit (digit d)"
  by (simp add: isDigit_def digit_def)

lemma digit_inj: "d < 10 \<Longrightarrow> d' < 10 \<Longrightarrow> digit d = digit d' \<Longrightarrow> d = d'"
proof -
  assume a: "d < 10" "d' < 10" "digit d = digit d'"
  then have "(of_char (digit d) :: nat) = of_char (digit d')" by simp
  with a(1,2) show ?thesis by (simp add: digit_def)
qed

lemma decimal_nonempty: "decimal n \<noteq> []"
  by (subst decimal.simps) simp

lemma decimal_digits: "list_all isDigit (decimal n)"
proof (induction n rule: decimal.induct)
  case (1 n)
  show ?case
  proof (cases "n < 10")
    case True
    then show ?thesis by (subst decimal.simps) (simp add: digit_isDigit)
  next
    case False
    then have "list_all isDigit (decimal (n div 10))" by (rule "1.IH")
    with False show ?thesis by (subst decimal.simps) (simp add: digit_isDigit)
  qed
qed

lemma decimal_inj: "decimal m = decimal n \<Longrightarrow> m = n"
proof (induction m arbitrary: n rule: decimal.induct)
  case (1 m)
  show ?case
  proof (cases "m < 10")
    case True
    show ?thesis
    proof (cases "n < 10")
      case n: True
      from "1.prems" True n have "digit m = digit n"
        by (simp add: decimal.simps [of m] decimal.simps [of n])
      with True n show ?thesis by (intro digit_inj)
    next
      case n: False
      from "1.prems" True n have "decimal (n div 10) = []"
        by (simp add: decimal.simps [of m] decimal.simps [of n] Cons_eq_append_conv)
      then show ?thesis by (simp add: decimal_nonempty)
    qed
  next
    case False
    show ?thesis
    proof (cases "n < 10")
      case n: True
      from "1.prems" False n have "decimal (m div 10) = []"
        by (simp add: decimal.simps [of m] decimal.simps [of n] append_eq_Cons_conv)
      then show ?thesis by (simp add: decimal_nonempty)
    next
      case n: False
      from "1.prems" False n
      have e: "decimal (m div 10) = decimal (n div 10)" and d: "digit (m mod 10) = digit (n mod 10)"
        by (simp_all add: decimal.simps [of m] decimal.simps [of n])
      from e have "m div 10 = n div 10" using False by (intro "1.IH")
      moreover from d have "m mod 10 = n mod 10" by (intro digit_inj) simp_all
      ultimately show ?thesis by (metis div_mult_mod_eq)
    qed
  qed
qed

lemma digits_then_rest:
  assumes "list_all P xs" and "list_all P xs'"
      and "case ys of [] \<Rightarrow> True | c # _ \<Rightarrow> \<not> P c"
      and "case ys' of [] \<Rightarrow> True | c # _ \<Rightarrow> \<not> P c"
      and "xs @ ys = xs' @ ys'"
  shows "xs = xs' \<and> ys = ys'"
proof -
  have t: "takeWhile P (us @ vs) = us" if "list_all P us" "case vs of [] \<Rightarrow> True | c # _ \<Rightarrow> \<not> P c"
    for us vs :: "'a list"
    using that by (cases vs) (simp_all add: list_all_iff takeWhile_append2)
  have "takeWhile P (xs @ ys) = takeWhile P (xs' @ ys')" using assms(5) by simp
  then have "xs = xs'" using t [OF assms(1,3)] t [OF assms(2,4)] by simp
  with assms(5) show ?thesis by simp
qed

lemma newId_inj:
  assumes "randomText rnd" and "randomText rnd'" and "newId now rnd = newId now' rnd'"
  shows "now = now' \<and> rnd = rnd'"
proof -
  from assms(1) obtain d rest where r: "rnd = d # rest" "isDigit d"
      "case rest of [] \<Rightarrow> True | c # _ \<Rightarrow> \<not> isDigit c"
    by (auto simp: randomText_def isDigit_def split: list.splits)
  from assms(2) obtain d' rest' where r': "rnd' = d' # rest'" "isDigit d'"
      "case rest' of [] \<Rightarrow> True | c # _ \<Rightarrow> \<not> isDigit c"
    by (auto simp: randomText_def isDigit_def split: list.splits)
  have "(decimal now @ [d]) @ rest = (decimal now' @ [d']) @ rest'"
    using assms(3) r(1) r'(1) by (simp add: newId_def)
  moreover have "list_all isDigit (decimal now @ [d])" "list_all isDigit (decimal now' @ [d'])"
    using r(2) r'(2) by (simp_all add: decimal_digits)
  ultimately have "decimal now @ [d] = decimal now' @ [d'] \<and> rest = rest'"
    using r(3) r'(3) by (intro digits_then_rest)
  then show ?thesis using r(1) r'(1) by (simp add: decimal_inj)
qed

lemma issuedIds_draws: "issuedIds es s = map (\<lambda>(now, rnd). newId now rnd) (draws es s)"
proof (induction es arbitrary: s)
  case Nil
  then show ?case by simp
next
  case (Cons e es)
  have "issued e s = map (\<lambda>(now, rnd). newId now rnd) (drawn e s)" by (cases e) simp_all
  with Cons show ?case by simp
qed

lemma issuedIds_distinct:
  assumes "distinct (draws es s)" and "list_all (\<lambda>(now, rnd). randomText rnd) (draws es s)"
  shows "distinct (issuedIds es s)"
proof -
  have "p = q" if "p \<in> set (draws es s)" "q \<in> set (draws es s)"
      "(\<lambda>(now, rnd). newId now rnd) p = (\<lambda>(now, rnd). newId now rnd) q" for p q
  proof -
    obtain n r n' r' where pq: "p = (n, r)" "q = (n', r')" by (cases p, cases q) blast
    have "randomText r" "randomText r'"
      using assms(2) that(1,2) pq by (auto simp: list_all_iff)
    moreover have "newId n r = newId n' r'" using that(3) pq by simp
    ultimately show ?thesis using pq newId_inj by blast
  qed
  then have "inj_on (\<lambda>(now, rnd). newId now rnd) (set (draws es s))"
    by (intro inj_onI)
  with assms(1) show ?thesis by (simp add: issuedIds_draws distinct_map)
qed

lemma threeDraws_draws:
  "draws threeDraws (initialViewer None) =
     [(1700000000000, ''0.5''), (1700000000000, ''3e-7''), (1700000000001, ''0.5'')]"
  by (simp add: threeDraws_def handler_defs example_defs)









section \<open>Clear-all\<close>

text \<open>
  C1, as the handler has it. \<open>clearAllHighlights\<close> empties the store, so that the query
  by page is empty for every page, and disarms the delete affordance. It does not touch
  \<open>selectionData\<close>: a pending selection is still pending afterwards.
\<close>

theorem clearAllHighlights_effect:
  "highlights (clearAllHighlights s) = [] \<and>
   pageHighlights (clearAllHighlights s) p = [] \<and>
   highlightToDelete (clearAllHighlights s) = None \<and>
   selectionData (clearAllHighlights s) = selectionData s"
  by (simp add: clearAllHighlights_def pageHighlights_def)

text \<open>
  The claim that clear-all also clears the pending selection fails on a viewer that has
  one.
\<close>

theorem clearAllHighlights_keeps_pending:
  "selectionData busyViewer = Some (pendingOnPage 2) \<and>
   selectionData (clearAllHighlights busyViewer) \<noteq> None"
  by (simp add: clearAllHighlights_def busyViewer_def)

section \<open>Document load\<close>

text \<open>
  C2, as the handler has it. \<open>onDocumentLoadSuccess\<close> records the page count and clears
  the load error. The store, the pending selection and the armed id are what they were.
\<close>

theorem onDocumentLoadSuccess_effect:
  "numPages (onDocumentLoadSuccess n s) = n \<and>
   error (onDocumentLoadSuccess n s) = None \<and>
   highlights (onDocumentLoadSuccess n s) = highlights s \<and>
   selectionData (onDocumentLoadSuccess n s) = selectionData s \<and>
   highlightToDelete (onDocumentLoadSuccess n s) = highlightToDelete s"
  by (simp add: onDocumentLoadSuccess_def)

text \<open>
  The claim that a load resets the overlay fails on a viewer with a highlight, a pending
  selection and an armed id: all three are still there after a two-page document loads.
\<close>

theorem onDocumentLoadSuccess_keeps_overlay:
  "highlights (onDocumentLoadSuccess 2 busyViewer) \<noteq> [] \<and>
   selectionData (onDocumentLoadSuccess 2 busyViewer) \<noteq> None \<and>
   highlightToDelete (onDocumentLoadSuccess 2 busyViewer) \<noteq> None"
  by (simp add: onDocumentLoadSuccess_def busyViewer_def)

section \<open>Identity of highlights\<close>

text \<open>
  C3, as the code has it. The id of a new highlight is the clock reading followed by the
  text of a random number; nothing compares it with the ids already given out. As long
  as no two commits of a session read the same clock value together with the same random
  number, the ids that \<open>createHighlight\<close> assigns in the session are pairwise
  different, deleted highlights included, and the ids in the store are pairwise different
  after every prefix of the session.
\<close>

theorem ids_distinct_while_draws_differ:
  assumes "distinct (draws es (initialViewer w))"
      and "list_all (\<lambda>(now, rnd). randomText rnd) (draws es (initialViewer w))"
      and "k \<le> length es"
  shows "distinct (map h_id (highlights (run (take k es) (initialViewer w)))) \<and>
         distinct (issuedIds es (initialViewer w))"
proof -
  have all: "distinct (issuedIds es (initialViewer w))"
    using assms(1,2) by (rule issuedIds_distinct)
  have "issuedIds es (initialViewer w) =
        issuedIds (take k es) (initialViewer w) @
        issuedIds (drop k es) (run (take k es) (initialViewer w))"
    using issuedIds_append [of "take k es" "drop k es"] by simp
  with all have "distinct (issuedIds (take k es) (initialViewer w))" by simp
  then have "distinct (map h_id (highlights (run (take k es) (initialViewer w))))"
    by (intro store_ids_stay_distinct) (simp add: initialViewer_def)
  with all show ?thesis by simp
qed

theorem ids_distinct_while_draws_differ_witness:
  "distinct (draws threeDraws (initialViewer None)) \<and>
   list_all (\<lambda>(now, rnd). randomText rnd) (draws threeDraws (initialViewer None)) \<and>
   10 \<le> length threeDraws \<and>
   distinct (map h_id (highlights (run (take 10 threeDraws) (initialViewer None)))) \<and>
   distinct (issuedIds threeDraws (initialViewer None))"
proof -
  have d: "distinct (draws threeDraws (initialViewer None))"
    by (simp add: threeDraws_draws)
  have t: "list_all (\<lambda>(now, rnd). randomText rnd) (draws threeDraws (initialViewer None))"
    by (simp add: threeDraws_draws randomText_def isDigit_def)
  have l: "10 \<le> length threeDraws" by (simp add: threeDraws_def)
  show ?thesis using d t l ids_distinct_while_draws_differ [OF d t l] by simp
qed

text \<open>
  Unconditional uniqueness fails: two commits for which the clock and the random number
  read the same leave two highlights with one id in the store.
\<close>

theorem ids_collide_on_equal_draws:
  "\<not> distinct (map h_id (highlights (run sameDraws (initialViewer None))))"
  by (simp add: sameDraws_store yellowOn_def)

section \<open>Commit\<close>

text \<open>
  C4. With a pending selection, \<open>createHighlight\<close> appends one highlight at the end of
  the store. Its page number, rectangles and text are those of the pending selection and
  its colour is the value of the selected colour. The pending selection is cleared and
  the browser selection, if there is one, has no ranges left. The store is one longer and
  starts with the store as it was.
\<close>

theorem createHighlight_appends:
  assumes "selectionData s = Some sd"
  shows "\<exists>h. highlights (createHighlight now rnd s) = highlights s @ [h] \<and>
             h_pageNumber h = sd_pageNumber sd \<and> h_rects h = sd_rects sd \<and>
             h_text h = sd_text sd \<and> h_color h = color_value (selectedColor s) \<and>
             selectionData (createHighlight now rnd s) = None \<and>
             windowSelection (createHighlight now rnd s) =
               map_option removeAllRanges (windowSelection s) \<and>
             (case windowSelection (createHighlight now rnd s) of
                None \<Rightarrow> True
              | Some sel \<Rightarrow> rangeCount sel = 0 \<and> isCollapsed sel \<and> selText sel = []) \<and>
             length (highlights (createHighlight now rnd s)) = length (highlights s) + 1 \<and>
             take (length (highlights s)) (highlights (createHighlight now rnd s)) = highlights s"
  using assms
  by (simp add: createHighlight_def Let_def removeAllRanges_def rangeCount_def split: option.splits)

theorem createHighlight_appends_witness:
  "selectionData busyViewer = Some (pendingOnPage 2) \<and>
   highlights (createHighlight 1700000000001 ''0.75'' busyViewer) =
     [yellowOn ''17000000000000.25'' 2, yellowOn (newId 1700000000001 ''0.75'') 2] \<and>
   selectionData (createHighlight 1700000000001 ''0.75'' busyViewer) = None \<and>
   windowSelection (createHighlight 1700000000001 ''0.75'' busyViewer) =
     Some \<lparr>isCollapsed = True, ranges = [], selText = []\<rparr>"
proof -
  have h: "selectionData busyViewer = Some (pendingOnPage 2)" by (simp add: busyViewer_def)
  show ?thesis
    using h createHighlight_appends [OF h, of 1700000000001 "''0.75''"]
    by (auto simp: busyViewer_def yellowOn_def pendingOnPage_def HIGHLIGHT_COLORS_def
                   removeAllRanges_def twoLines_def createHighlight_def)
qed

section \<open>Geometry\<close>

text \<open>
  C5. \<open>relativeRects\<close> keeps the number and the order of the rectangles; the \<open>i\<close>-th
  result has the \<open>i\<close>-th input's \<open>left\<close> and \<open>top\<close> minus those of the page box as
  \<open>x\<close> and \<open>y\<close>, and the same width and height. \<open>buttonPosition\<close> is the first
  rectangle's \<open>left\<close> and \<open>top\<close> minus those of the page box, with 40 subtracted from
  the ordinate. A capture that passes the guards stores exactly these, whatever the sign
  of the ordinate. The statement holds for every number type.
\<close>

theorem capture_geometry:
  fixes pageRect :: "('n::{ord,plus,minus,numeral}) DOMRect"
  shows "length (relativeRects pageRect rects) = length rects \<and>
   (\<forall>i<length rects.
      rect_x (relativeRects pageRect rects ! i) = rect_left (rects ! i) - rect_left pageRect \<and>
      rect_y (relativeRects pageRect rects ! i) = rect_top (rects ! i) - rect_top pageRect \<and>
      rect_width (relativeRects pageRect rects ! i) = rect_width (rects ! i) \<and>
      rect_height (relativeRects pageRect rects ! i) = rect_height (rects ! i)) \<and>
   pos_x (buttonPosition pageRect firstRect) = rect_left firstRect - rect_left pageRect \<and>
   pos_y (buttonPosition pageRect firstRect) = rect_top firstRect - rect_top pageRect - 40 \<and>
   (windowSelection s = Some sel \<and> \<not> isCollapsed sel \<and> ranges sel = rects # others \<and>
    trim (selText sel) \<noteq> [] \<and> rects \<noteq> [] \<and>
    pageRefs p = Some (Some \<lparr>getBoundingClientRect = pageRect\<rparr>) \<longrightarrow>
    handleTextSelection pageRefs p s =
      Inr (s\<lparr>selectionData :=
               Some \<lparr>sd_pageNumber = p, sd_rects = relativeRects pageRect rects,
                     sd_text = trim (selText sel),
                     sd_position = buttonPosition pageRect (rects ! 0)\<rparr>\<rparr>))"
  by (simp add: relativeRects_def buttonPosition_def handleTextSelection_def rangeCount_def
                getRangeAt_def Let_def)

text \<open>The two-line selection of page 2: the anchor lies 1190 px above the page's top edge.\<close>

theorem capture_geometry_witness:
  "relativeRects pageBox [rectA, rectB] = sd_rects (pendingOnPage 2) \<and>
   buttonPosition pageBox rectA = \<lparr>pos_x = - 400, pos_y = - 1190\<rparr> \<and>
   handleTextSelection (mounted 2) 2 idleViewer = Inr busyViewer"
  using capture_geometry [of pageBox "[rectA, rectB]" rectA idleViewer twoLines "[]" "mounted 2" 2]
  by (simp add: handler_defs example_defs)

text \<open>
  In a number type whose addition undoes its subtraction, adding the page offset again
  gives back \<open>left\<close>, \<open>top\<close>, width and height of every input rectangle. JavaScript
  numbers are binary floating point, where a subtraction may round, so this is a fact
  about exact coordinates only.
\<close>

lemma relativeRects_exact_roundtrip:
  fixes pageRect :: "('n::{ord,ab_group_add}) DOMRect"
  shows "map (\<lambda>r. (rect_x r + rect_left pageRect, rect_y r + rect_top pageRect,
                   rect_width r, rect_height r)) (relativeRects pageRect rects) =
         map (\<lambda>r. (rect_left r, rect_top r, rect_width r, rect_height r)) rects"
  by (simp add: relativeRects_def comp_def)




section \<open>Selections that are ignored\<close>

text \<open>
  C7. When there is no selection object, or the selection is collapsed, has no range,
  has a first range without client rectangles, has only white space as text, or the page
  has no mounted container (no entry or a null entry in \<open>pageRefs\<close>), the timer callback
  returns normally with the state it found.
\<close>

theorem capture_ignored:
  assumes "windowSelection s = None \<or>
           (\<exists>sel. windowSelection s = Some sel \<and>
              (isCollapsed sel \<or> rangeCount sel = 0 \<or> getRangeAt sel 0 = Inr [] \<or>
               trim (selText sel) = [] \<or> pageRefs p = None \<or> pageRefs p = Some None))"
  shows "handleTextSelection pageRefs p s = Inr s"
  using assms
  by (auto simp: handleTextSelection_def rangeCount_def getRangeAt_def Let_def
           split: option.splits sum.splits)

text \<open>A page without container, no selection object, a selection of a blank and a line feed.\<close>

theorem capture_ignored_witness:
  "handleTextSelection (mounted 2) 3 idleViewer = Inr idleViewer \<and>
   handleTextSelection (mounted 2) 2 (idleViewer\<lparr>windowSelection := None\<rparr>) =
     Inr (idleViewer\<lparr>windowSelection := None\<rparr>) \<and>
   handleTextSelection (mounted 2) 2
       (idleViewer\<lparr>windowSelection := Some (twoLines\<lparr>selText := [0x20, 0x0A]\<rparr>)\<rparr>) =
     Inr (idleViewer\<lparr>windowSelection := Some (twoLines\<lparr>selText := [0x20, 0x0A]\<rparr>)\<rparr>)"
proof -
  have a: "windowSelection idleViewer = None \<or>
           (\<exists>sel. windowSelection idleViewer = Some sel \<and>
              (isCollapsed sel \<or> rangeCount sel = 0 \<or> getRangeAt sel 0 = Inr [] \<or>
               trim (selText sel) = [] \<or> mounted 2 3 = None \<or> mounted 2 3 = Some None))"
    by (simp add: example_defs)
  have b: "windowSelection (idleViewer\<lparr>windowSelection := None\<rparr>) = None \<or>
           (\<exists>sel. windowSelection (idleViewer\<lparr>windowSelection := None\<rparr>) = Some sel \<and>
              (isCollapsed sel \<or> rangeCount sel = 0 \<or> getRangeAt sel 0 = Inr [] \<or>
               trim (selText sel) = [] \<or> mounted 2 2 = None \<or> mounted 2 2 = Some None))"
    by simp
  have c: "windowSelection
             (idleViewer\<lparr>windowSelection := Some (twoLines\<lparr>selText := [0x20, 0x0A]\<rparr>)\<rparr>) = None \<or>
           (\<exists>sel. windowSelection
                    (idleViewer\<lparr>windowSelection := Some (twoLines\<lparr>selText := [0x20, 0x0A]\<rparr>)\<rparr>) =
                  Some sel \<and>
              (isCollapsed sel \<or> rangeCount sel = 0 \<or> getRangeAt sel 0 = Inr [] \<or>
               trim (selText sel) = [] \<or> mounted 2 2 = None \<or> mounted 2 2 = Some None))"
    by (simp add: trim_def isWhiteSpace_def)
  show ?thesis
    using capture_ignored [where pageRefs = "mounted 2" and p = 3, OF a]
          capture_ignored [where pageRefs = "mounted 2" and p = 2, OF b]
          capture_ignored [where pageRefs = "mounted 2" and p = 2, OF c]
    by simp
qed

section \<open>Removal\<close>

text \<open>
  C8, as the handler has it. \<open>confirmRemoveHighlight\<close> keeps, in their order, exactly
  the highlights whose id differs from the given one, and raises nothing. When no
  highlight has the id the store is unchanged. When the ids in the store are pairwise
  different and one highlight has the id, the store gets shorter by one.
\<close>

theorem confirmRemoveHighlight_effect:
  "highlights (confirmRemoveHighlight i s) = filter (\<lambda>h. h_id h \<noteq> i) (highlights s) \<and>
   (i \<notin> set (map h_id (highlights s)) \<longrightarrow>
      highlights (confirmRemoveHighlight i s) = highlights s) \<and>
   (distinct (map h_id (highlights s)) \<and> i \<in> set (map h_id (highlights s)) \<longrightarrow>
      length (highlights (confirmRemoveHighlight i s)) + 1 = length (highlights s))"
proof -
  have a: "highlights (confirmRemoveHighlight i s) = filter (\<lambda>h. h_id h \<noteq> i) (highlights s)"
    by (simp add: confirmRemoveHighlight_def)
  have b: "filter (\<lambda>h. h_id h \<noteq> i) (highlights s) = highlights s"
    if "i \<notin> set (map h_id (highlights s))"
    using that by (auto simp: filter_id_conv)
  have c: "length (filter (\<lambda>h. h_id h \<noteq> i) (highlights s)) + 1 = length (highlights s)"
    if "distinct (map h_id (highlights s))" and "i \<in> set (map h_id (highlights s))"
  proof -
    from that(2) obtain x where "x \<in> set (highlights s)" and "i = h_id x" by auto
    then show ?thesis using filter_out_one [OF that(1), of x] by simp
  qed
  show ?thesis using a b c by simp
qed

text \<open>
  Removing the first of two highlights with different ids, and removing an id that
  clear-all has already taken away.
\<close>

theorem confirmRemoveHighlight_effect_witness:
  "distinct (map h_id (highlights (run freshDraws (initialViewer None)))) \<and>
   highlights (confirmRemoveHighlight (newId 1700000000000 ''0.5'')
                 (run freshDraws (initialViewer None))) =
     [yellowOn (newId 1700000000000 ''0.25'') 2] \<and>
   highlights (confirmRemoveHighlight ''17000000000000.25'' (clearAllHighlights busyViewer)) =
     highlights (clearAllHighlights busyViewer)"
  using confirmRemoveHighlight_effect
          [of "newId 1700000000000 ''0.5''" "run freshDraws (initialViewer None)"]
        confirmRemoveHighlight_effect
          [of "''17000000000000.25''" "clearAllHighlights busyViewer"]
  by (simp add: freshDraws_store yellowOn_def newId_def clearAllHighlights_def)

text \<open>
  Without distinct ids the store can lose more than one record: in the store with two
  highlights of one id, removal of that id leaves nothing.
\<close>

theorem confirmRemoveHighlight_removes_two:
  "length (highlights (run sameDraws (initialViewer None))) = 2 \<and>
   h_id (highlights (run sameDraws (initialViewer None)) ! 0) = newId 1700000000000 ''0.5'' \<and>
   length (highlights (confirmRemoveHighlight (newId 1700000000000 ''0.5'')
             (run sameDraws (initialViewer None)))) = 0"
  by (simp add: sameDraws_store confirmRemoveHighlight_def yellowOn_def)

section \<open>Page numbers\<close>

text \<open>
  C9, as the code has it. In every state a session reaches from the initial viewer, the
  page number of every stored highlight and of the pending selection lies between 1 and
  the largest page count the viewer has had in the session. The page count itself is
  whatever the last load reported.
\<close>

theorem pages_within_peak:
  "pagesWithin (peakPages es (initialViewer w)) (run es (initialViewer w))"
proof -
  have "pagesWithin 0 (initialViewer w)" by (simp add: pagesWithin_def initialViewer_def)
  then have "pagesWithin (max 0 (peakPages es (initialViewer w))) (run es (initialViewer w))"
    by (rule run_pagesWithin)
  then show ?thesis by simp
qed

theorem pages_within_peak_witness:
  "peakPages shrinkingLoad (initialViewer None) = 5 \<and>
   pagesWithin 5 (run shrinkingLoad (initialViewer None))"
proof -
  have "peakPages shrinkingLoad (initialViewer None) = 5"
    by (simp add: shrinkingLoad_def handler_defs example_defs)
  then show ?thesis using pages_within_peak [of shrinkingLoad None] by simp
qed

text \<open>
  The bound by the current page count fails, and the page count shrinks: after a
  highlight on page 5 of a five-page document, the load of a two-page document leaves
  the page count 2 and the highlight on page 5 in the store.
\<close>

theorem page_count_shrinks_below_highlight:
  "numPages (run (butlast shrinkingLoad) (initialViewer None)) = 5 \<and>
   numPages (run shrinkingLoad (initialViewer None)) = 2 \<and>
   h_pageNumber (highlights (run shrinkingLoad (initialViewer None)) ! 0) = 5 \<and>
   \<not> pagesWithin (numPages (run shrinkingLoad (initialViewer None)))
        (run shrinkingLoad (initialViewer None))"
proof -
  have "numPages (run (butlast shrinkingLoad) (initialViewer None)) = 5"
    by (simp add: shrinkingLoad_def handler_defs example_defs)
  then show ?thesis by (simp add: shrinkingLoad_final pagesWithin_def yellowOn_def)
qed

section \<open>Commit without a pending selection\<close>

text \<open>
  C10. When \<open>selectionData\<close> is null, \<open>createHighlight\<close> returns at once: the whole
  state, including the store, the pending selection, the armed id and the browser
  selection, is what it was.
\<close>

theorem createHighlight_without_selection:
  "selectionData s = None \<Longrightarrow> createHighlight now rnd s = s"
  by (simp add: createHighlight_def)

theorem createHighlight_without_selection_witness:
  "selectionData idleViewer = None \<and>
   createHighlight 1700000000000 ''0.5'' idleViewer = idleViewer"
proof -
  have h: "selectionData idleViewer = None" by (simp add: idleViewer_def)
  show ?thesis using h createHighlight_without_selection [OF h] by simp
qed

end
